theory Spec2Isabelle
  imports Complex_Main
begin

section \<open>JavaScript values read by the rules\<close>

text \<open>
  The two rules of \<^verbatim>\<open>src/index.js\<close> read the \<^verbatim>\<open>value\<close> of ESTree literal nodes: a
  string, a boolean, \<^verbatim>\<open>null\<close>, a number, a bigint or a regular expression object. A
  property that a node does not have reads as \<^verbatim>\<open>undefined\<close>. A number is a double:
  \<open>Finite q\<close> carries the mathematical value of a finite double (both zeros are
  \<open>Finite 0\<close>); only its truthiness is ever observed by the rules.
\<close>

datatype jsnumber = NaN | PosInfinity | NegInfinity | Finite rat

datatype jsvalue =
    JUndefined
  | JNull
  | JBoolean bool
  | JNumber jsnumber
  | JString string
  | JBigInt int
  | JRegExp string string

text \<open>An uncaught exception of the callback. The only one the code can raise.\<close>

datatype error = TypeError

text \<open>\<^verbatim>\<open>ToBoolean\<close> of ECMAScript, which \<^verbatim>\<open>!source\<close> and \<^verbatim>\<open>a || b\<close> apply.\<close>

fun ToBoolean :: "jsvalue \<Rightarrow> bool" where
  "ToBoolean JUndefined = False"
| "ToBoolean JNull = False"
| "ToBoolean (JBoolean b) = b"
| "ToBoolean (JNumber NaN) = False"
| "ToBoolean (JNumber (Finite q)) = (q \<noteq> 0)"
| "ToBoolean (JNumber PosInfinity) = True"
| "ToBoolean (JNumber NegInfinity) = True"
| "ToBoolean (JString s) = (s \<noteq> [])"
| "ToBoolean (JBigInt i) = (i \<noteq> 0)"
| "ToBoolean (JRegExp p f) = True"

text \<open>\<^verbatim>\<open>a || b\<close>: the left operand when it is truthy, the right one otherwise.\<close>

definition js_or :: "jsvalue \<Rightarrow> jsvalue \<Rightarrow> jsvalue" where
  "js_or a b = (if ToBoolean a then a else b)"

text \<open>
  \<^verbatim>\<open>String.prototype.startsWith(searchString)\<close> at position 0, step by step: an empty
  search string is found; one longer than the string is not; otherwise the leading
  code units are compared.
\<close>

definition startsWith :: "string \<Rightarrow> string \<Rightarrow> bool" where
  "startsWith s searchStr =
     (if length searchStr = 0 then True
      else if length s < length searchStr then False
      else take (length searchStr) s = searchStr)"

text \<open>\<^verbatim>\<open>Array.prototype.includes\<close> on an array of strings: only an equal string is found.\<close>

definition array_includes :: "string list \<Rightarrow> jsvalue \<Rightarrow> bool" where
  "array_includes xs v = (case v of JString s \<Rightarrow> s \<in> set xs | _ \<Rightarrow> False)"

section \<open>Syntax tree nodes\<close>

text \<open>
  A node carries its \<^verbatim>\<open>type\<close> tag and the fields of its kind. The kinds whose fields
  the rules read have a constructor each; \<open>OtherNode t cs\<close> is a node of any other
  type \<open>t\<close> with children \<open>cs\<close>. The \<^verbatim>\<open>parent\<close> back-reference of a node is passed to a
  callback beside the node (\<open>None\<close> is the \<^verbatim>\<open>null\<close> parent of the root).
\<close>

datatype node =
    Identifier string
  | Literal jsvalue
  | MemberExpression node node bool
  | CallExpression node "node list"
  | ImportExpression node
  | ImportDeclaration "node list" node
  | FunctionDeclaration "node option" "node list" node
  | OtherNode string "node list"

fun node_type :: "node \<Rightarrow> string" where
  "node_type (Identifier n) = ''Identifier''"
| "node_type (Literal v) = ''Literal''"
| "node_type (MemberExpression obj prop computed) = ''MemberExpression''"
| "node_type (CallExpression c args) = ''CallExpression''"
| "node_type (ImportExpression src) = ''ImportExpression''"
| "node_type (ImportDeclaration specs src) = ''ImportDeclaration''"
| "node_type (FunctionDeclaration ident params body) = ''FunctionDeclaration''"
| "node_type (OtherNode t cs) = t"

text \<open>
  Property reads. A node-valued property that the node does not have is \<open>None\<close>
  (\<^verbatim>\<open>undefined\<close>, as is the \<^verbatim>\<open>null\<close> \<^verbatim>\<open>id\<close> of an anonymous function); reading a
  property of it throws.
\<close>

fun name_of :: "node \<Rightarrow> jsvalue" where
  "name_of (Identifier n) = JString n"
| "name_of _ = JUndefined"

fun value_of :: "node \<Rightarrow> jsvalue" where
  "value_of (Literal v) = v"
| "value_of _ = JUndefined"

fun callee_of :: "node \<Rightarrow> node option" where
  "callee_of (CallExpression c args) = Some c"
| "callee_of _ = None"

fun arguments_of :: "node \<Rightarrow> node list option" where
  "arguments_of (CallExpression c args) = Some args"
| "arguments_of _ = None"

fun property_of :: "node \<Rightarrow> node option" where
  "property_of (MemberExpression obj prop computed) = Some prop"
| "property_of _ = None"

fun source_of :: "node \<Rightarrow> node option" where
  "source_of (ImportExpression src) = Some src"
| "source_of (ImportDeclaration specs src) = Some src"
| "source_of _ = None"

fun id_of :: "node \<Rightarrow> node option" where
  "id_of (FunctionDeclaration ident params body) = ident"
| "id_of _ = None"

section \<open>Diagnostics\<close>

text \<open>
  The argument of \<^verbatim>\<open>context.report\<close>: the node, the message key and the placeholder
  data (empty when the call passes none). A callback returns the reports it made, in
  order, or the exception it threw.
\<close>

record diagnostic =
  d_node :: node
  messageId :: string
  d_data :: "(string \<times> jsvalue) list"

type_synonym result = "error + diagnostic list"

type_synonym listener = "node \<Rightarrow> node option \<Rightarrow> result"

section \<open>Rule no-logic-in-ffi\<close>

definition LOGIC_INDICATOR_MESSAGE :: string where
  "LOGIC_INDICATOR_MESSAGE =
     ''FFI files must only contain stubs to external libraries. Move this logic to PureScript.''"

definition ARRAY_METHODS :: "string list" where
  "ARRAY_METHODS =
     [''map'', ''filter'', ''reduce'', ''findIndex'', ''find'', ''some'', ''every'', ''flatMap'']"

definition no_logic_in_ffi_messages :: "(string \<times> string) list" where
  "no_logic_in_ffi_messages =
     [(''noHelperFunctions'',
         ''Non-exported helper function '{{name}}' detected. FFI should only have exports. Move logic to PureScript.''),
      (''noIfStatements'',
         ''if/else statements indicate business logic. '' @ LOGIC_INDICATOR_MESSAGE),
      (''noLoops'', ''Loop statements indicate business logic. '' @ LOGIC_INDICATOR_MESSAGE),
      (''noTernary'', ''Ternary operators indicate business logic. '' @ LOGIC_INDICATOR_MESSAGE),
      (''noSwitch'', ''Switch statements indicate business logic. '' @ LOGIC_INDICATOR_MESSAGE),
      (''noArrayMethods'',
         ''Array method '.{{method}}()' indicates data transformation. '' @ LOGIC_INDICATOR_MESSAGE),
      (''noComplexCatch'',
         ''Complex catch blocks with logic indicate error handling that should be in PureScript.'')]"

definition no_logic_in_ffi_FunctionDeclaration :: listener where
  "no_logic_in_ffi_FunctionDeclaration node parent =
     (case parent of
        None \<Rightarrow> Inl TypeError
      | Some p \<Rightarrow>
          if node_type p \<noteq> ''ExportNamedDeclaration'' \<and> node_type p \<noteq> ''ExportDefaultDeclaration''
          then Inr [\<lparr>d_node = node, messageId = ''noHelperFunctions'',
                     d_data = [(''name'',
                        js_or (case id_of node of None \<Rightarrow> JUndefined | Some i \<Rightarrow> name_of i)
                              (JString ''anonymous''))]\<rparr>]
          else Inr [])"

definition no_logic_in_ffi_IfStatement :: listener where
  "no_logic_in_ffi_IfStatement node parent =
     Inr [\<lparr>d_node = node, messageId = ''noIfStatements'', d_data = []\<rparr>]"

definition no_logic_in_ffi_ForStatement :: listener where
  "no_logic_in_ffi_ForStatement node parent =
     Inr [\<lparr>d_node = node, messageId = ''noLoops'', d_data = []\<rparr>]"

definition no_logic_in_ffi_ForInStatement :: listener where
  "no_logic_in_ffi_ForInStatement node parent =
     Inr [\<lparr>d_node = node, messageId = ''noLoops'', d_data = []\<rparr>]"

definition no_logic_in_ffi_ForOfStatement :: listener where
  "no_logic_in_ffi_ForOfStatement node parent =
     Inr [\<lparr>d_node = node, messageId = ''noLoops'', d_data = []\<rparr>]"

definition no_logic_in_ffi_WhileStatement :: listener where
  "no_logic_in_ffi_WhileStatement node parent =
     Inr [\<lparr>d_node = node, messageId = ''noLoops'', d_data = []\<rparr>]"

definition no_logic_in_ffi_DoWhileStatement :: listener where
  "no_logic_in_ffi_DoWhileStatement node parent =
     Inr [\<lparr>d_node = node, messageId = ''noLoops'', d_data = []\<rparr>]"

definition no_logic_in_ffi_ConditionalExpression :: listener where
  "no_logic_in_ffi_ConditionalExpression node parent =
     Inr [\<lparr>d_node = node, messageId = ''noTernary'', d_data = []\<rparr>]"

definition no_logic_in_ffi_SwitchStatement :: listener where
  "no_logic_in_ffi_SwitchStatement node parent =
     Inr [\<lparr>d_node = node, messageId = ''noSwitch'', d_data = []\<rparr>]"

definition no_logic_in_ffi_CallExpression :: listener where
  "no_logic_in_ffi_CallExpression node parent =
     (case callee_of node of
        None \<Rightarrow> Inl TypeError
      | Some c \<Rightarrow>
          if node_type c = ''MemberExpression'' then
            (case property_of c of
               None \<Rightarrow> Inl TypeError
             | Some p \<Rightarrow>
                 if node_type p = ''Identifier'' \<and> array_includes ARRAY_METHODS (name_of p)
                 then Inr [\<lparr>d_node = node, messageId = ''noArrayMethods'',
                            d_data = [(''method'', name_of p)]\<rparr>]
                 else Inr [])
          else Inr [])"

text \<open>The object that \<^verbatim>\<open>create\<close> returns: the callback registered for each node type.\<close>

definition no_logic_in_ffi_create :: "(string \<times> listener) list" where
  "no_logic_in_ffi_create =
     [(''FunctionDeclaration'', no_logic_in_ffi_FunctionDeclaration),
      (''IfStatement'', no_logic_in_ffi_IfStatement),
      (''ForStatement'', no_logic_in_ffi_ForStatement),
      (''ForInStatement'', no_logic_in_ffi_ForInStatement),
      (''ForOfStatement'', no_logic_in_ffi_ForOfStatement),
      (''WhileStatement'', no_logic_in_ffi_WhileStatement),
      (''DoWhileStatement'', no_logic_in_ffi_DoWhileStatement),
      (''ConditionalExpression'', no_logic_in_ffi_ConditionalExpression),
      (''SwitchStatement'', no_logic_in_ffi_SwitchStatement),
      (''CallExpression'', no_logic_in_ffi_CallExpression)]"

section \<open>Rule no-local-imports\<close>

definition no_local_imports_messages :: "(string \<times> string) list" where
  "no_local_imports_messages =
     [(''noLocalImport'',
         ''Import from local file '{{source}}' is not allowed in FFI. FFI must only import from external npm packages or Node.js built-ins. Move this logic to PureScript.''),
      (''noLocalRequire'',
         ''Require of local file '{{source}}' is not allowed in FFI. FFI must only require external npm packages or Node.js built-ins. Move this logic to PureScript.''),
      (''noLocalDynamicImport'',
         ''Dynamic import from local file '{{source}}' is not allowed in FFI. FFI must only import from external npm packages or Node.js built-ins. Move this logic to PureScript.'')]"

text \<open>
  \<^verbatim>\<open>isLocalImport\<close>: a falsy source is not local. Otherwise \<^verbatim>\<open>source.startsWith\<close> is
  called: on a string it is the prefix test; a truthy boolean, number, bigint or regular
  expression has no such method, and calling \<^verbatim>\<open>undefined\<close> throws a TypeError.
\<close>

definition isLocalImport :: "jsvalue \<Rightarrow> error + bool" where
  "isLocalImport source =
     (if \<not> ToBoolean source then Inr False
      else (case source of
              JString s \<Rightarrow> Inr (startsWith s ''./'' \<or> startsWith s ''../'')
            | _ \<Rightarrow> Inl TypeError))"

definition no_local_imports_ImportDeclaration :: listener where
  "no_local_imports_ImportDeclaration node parent =
     (case source_of node of
        None \<Rightarrow> Inl TypeError
      | Some src \<Rightarrow>
          (let source = value_of src in
           case isLocalImport source of
             Inl e \<Rightarrow> Inl e
           | Inr local \<Rightarrow>
               if local
               then Inr [\<lparr>d_node = node, messageId = ''noLocalImport'',
                          d_data = [(''source'', source)]\<rparr>]
               else Inr []))"

definition no_local_imports_CallExpression :: listener where
  "no_local_imports_CallExpression node parent =
     (case callee_of node of
        None \<Rightarrow> Inl TypeError
      | Some c \<Rightarrow>
          if node_type c = ''Identifier'' \<and> name_of c = JString ''require'' then
            (case arguments_of node of
               None \<Rightarrow> Inl TypeError
             | Some [] \<Rightarrow> Inr []
             | Some (a # rest) \<Rightarrow>
                 if node_type a = ''Literal'' then
                   (let source = value_of a in
                    case isLocalImport source of
                      Inl e \<Rightarrow> Inl e
                    | Inr local \<Rightarrow>
                        if local
                        then Inr [\<lparr>d_node = node, messageId = ''noLocalRequire'',
                                   d_data = [(''source'', source)]\<rparr>]
                        else Inr [])
                 else Inr [])
          else Inr [])"

definition no_local_imports_ImportExpression :: listener where
  "no_local_imports_ImportExpression node parent =
     (case source_of node of
        None \<Rightarrow> Inl TypeError
      | Some src \<Rightarrow>
          if node_type src = ''Literal'' then
            (let source = value_of src in
             case isLocalImport source of
               Inl e \<Rightarrow> Inl e
             | Inr local \<Rightarrow>
                 if local
                 then Inr [\<lparr>d_node = node, messageId = ''noLocalDynamicImport'',
                            d_data = [(''source'', source)]\<rparr>]
                 else Inr [])
          else Inr [])"

definition no_local_imports_create :: "(string \<times> listener) list" where
  "no_local_imports_create =
     [(''ImportDeclaration'', no_local_imports_ImportDeclaration),
      (''CallExpression'', no_local_imports_CallExpression),
      (''ImportExpression'', no_local_imports_ImportExpression)]"

text \<open>
  The registration contract: visiting a node calls the callback registered for the
  node's type, when there is one, on the node.
\<close>

definition visit :: "(string \<times> listener) list \<Rightarrow> node \<Rightarrow> node option \<Rightarrow> result" where
  "visit listeners node parent =
     (case map_of listeners (node_type node) of
        None \<Rightarrow> Inr []
      | Some callback \<Rightarrow> callback node parent)"

section \<open>Facts about the string test and the dispatch\<close>

text \<open>
  \<^verbatim>\<open>startsWith\<close> is the prefix test: the string is the search string followed by
  something.
\<close>

lemma startsWith_append: "startsWith s p \<longleftrightarrow> (\<exists>t. s = p @ t)"
proof
  assume h: "startsWith s p"
  show "\<exists>t. s = p @ t"
  proof (cases "length p = 0")
    case True
    then show ?thesis by simp
  next
    case False
    with h have "take (length p) s = p"
      by (simp add: startsWith_def split: if_splits)
    then have "s = p @ drop (length p) s"
      by (metis append_take_drop_id)
    then show ?thesis ..
  qed
next
  assume "\<exists>t. s = p @ t"
  then show "startsWith s p"
    by (auto simp: startsWith_def)
qed

lemma isLocalImport_JString:
  "isLocalImport (JString s) = Inr (s \<noteq> [] \<and> ((\<exists>t. s = ''./'' @ t) \<or> (\<exists>t. s = ''../'' @ t)))"
  by (auto simp: isLocalImport_def startsWith_append)

lemma isLocalImport_True_is_string: "isLocalImport v = Inr True \<Longrightarrow> \<exists>s. v = JString s"
  by (cases v) (auto simp: isLocalImport_def split: if_splits)

text \<open>
  Visiting a node of a kind with a registered callback runs that callback.
\<close>

lemma visit_no_logic_FunctionDeclaration:
  "visit no_logic_in_ffi_create (FunctionDeclaration i ps b) p =
     no_logic_in_ffi_FunctionDeclaration (FunctionDeclaration i ps b) p"
  by (simp add: visit_def no_logic_in_ffi_create_def)

lemma visit_no_logic_CallExpression:
  "visit no_logic_in_ffi_create (CallExpression c args) p =
     no_logic_in_ffi_CallExpression (CallExpression c args) p"
  by (simp add: visit_def no_logic_in_ffi_create_def)

lemma visit_no_local_ImportDeclaration:
  "visit no_local_imports_create (ImportDeclaration specs src) p =
     no_local_imports_ImportDeclaration (ImportDeclaration specs src) p"
  by (simp add: visit_def no_local_imports_create_def)

lemma visit_no_local_CallExpression:
  "visit no_local_imports_create (CallExpression c args) p =
     no_local_imports_CallExpression (CallExpression c args) p"
  by (simp add: visit_def no_local_imports_create_def)

lemma visit_no_local_ImportExpression:
  "visit no_local_imports_create (ImportExpression src) p =
     no_local_imports_ImportExpression (ImportExpression src) p"
  by (simp add: visit_def no_local_imports_create_def)

text \<open>
  The message keys that the callbacks of each rule report.
\<close>

lemma no_logic_in_ffi_messageIds:
  assumes "visit no_logic_in_ffi_create node parent = Inr ds" and "d \<in> set ds"
  shows "messageId d \<in> {''noHelperFunctions'', ''noIfStatements'', ''noLoops'', ''noTernary'',
           ''noSwitch'', ''noArrayMethods''}"
  using assms
  by (auto simp: visit_def no_logic_in_ffi_create_def no_logic_in_ffi_FunctionDeclaration_def
        no_logic_in_ffi_IfStatement_def
        no_logic_in_ffi_ForStatement_def no_logic_in_ffi_ForInStatement_def
        no_logic_in_ffi_ForOfStatement_def no_logic_in_ffi_WhileStatement_def
        no_logic_in_ffi_DoWhileStatement_def no_logic_in_ffi_ConditionalExpression_def
        no_logic_in_ffi_SwitchStatement_def no_logic_in_ffi_CallExpression_def
      split: if_splits option.splits)

lemma no_local_imports_messageIds:
  assumes "visit no_local_imports_create node parent = Inr ds" and "d \<in> set ds"
  shows "messageId d \<in> {''noLocalImport'', ''noLocalRequire'', ''noLocalDynamicImport''}"
  using assms
  by (auto simp: visit_def no_local_imports_create_def no_local_imports_ImportDeclaration_def
        no_local_imports_CallExpression_def no_local_imports_ImportExpression_def Let_def
      split: if_splits option.splits sum.splits list.splits)

text \<open>A callback that returns has reported at most once.\<close>

lemma callbacks_report_at_most_once:
  assumes "visit no_logic_in_ffi_create node parent = Inr ds
           \<or> visit no_local_imports_create node parent = Inr ds"
  shows "length ds \<le> 1"
proof -
  have logic: "length ds \<le> 1" if "visit no_logic_in_ffi_create node parent = Inr ds"
    using that
    by (auto simp: visit_def no_logic_in_ffi_create_def
          no_logic_in_ffi_FunctionDeclaration_def no_logic_in_ffi_IfStatement_def
          no_logic_in_ffi_ForStatement_def no_logic_in_ffi_ForInStatement_def
          no_logic_in_ffi_ForOfStatement_def no_logic_in_ffi_WhileStatement_def
          no_logic_in_ffi_DoWhileStatement_def no_logic_in_ffi_ConditionalExpression_def
          no_logic_in_ffi_SwitchStatement_def no_logic_in_ffi_CallExpression_def
        split: if_splits option.splits)
  have local_imports: "length ds \<le> 1" if "visit no_local_imports_create node parent = Inr ds"
    using that
    by (auto simp: visit_def no_local_imports_create_def
          no_local_imports_ImportDeclaration_def no_local_imports_CallExpression_def
          no_local_imports_ImportExpression_def Let_def
        split: if_splits option.splits sum.splits list.splits)
  from assms logic local_imports show ?thesis by blast
qed

section \<open>The claims\<close>

text \<open>
  Claim C1. For every value of an import specifier, \<^verbatim>\<open>isLocalImport\<close> returns true if and
  only if the value is a non-empty string that starts with \<^verbatim>\<open>./\<close> or \<^verbatim>\<open>../\<close>. In
  particular \<^verbatim>\<open>"./a"\<close> and \<^verbatim>\<open>"../a/b"\<close> are local, and
  \<^verbatim>\<open>"fs"\<close>, \<^verbatim>\<open>"pdf-lib"\<close>, \<^verbatim>\<open>"node:crypto"\<close>, the empty string and \<^verbatim>\<open>undefined\<close>
  are not: the function returns false on each of them.
\<close>

theorem isLocalImport_iff:
  "(isLocalImport v = Inr True \<longleftrightarrow>
      (\<exists>s. v = JString s \<and> s \<noteq> [] \<and> ((\<exists>t. s = ''./'' @ t) \<or> (\<exists>t. s = ''../'' @ t))))
   \<and> isLocalImport (JString ''./a'') = Inr True
   \<and> isLocalImport (JString ''../a/b'') = Inr True
   \<and> isLocalImport (JString ''fs'') = Inr False
   \<and> isLocalImport (JString ''pdf-lib'') = Inr False
   \<and> isLocalImport (JString ''node:crypto'') = Inr False
   \<and> isLocalImport (JString '''') = Inr False
   \<and> isLocalImport JUndefined = Inr False"
proof -
  have general: "isLocalImport v = Inr True \<longleftrightarrow>
      (\<exists>s. v = JString s \<and> s \<noteq> [] \<and> ((\<exists>t. s = ''./'' @ t) \<or> (\<exists>t. s = ''../'' @ t)))"
  proof
    assume h: "isLocalImport v = Inr True"
    then obtain s where "v = JString s"
      using isLocalImport_True_is_string by blast
    with h show "\<exists>s. v = JString s \<and> s \<noteq> [] \<and> ((\<exists>t. s = ''./'' @ t) \<or> (\<exists>t. s = ''../'' @ t))"
      by (simp add: isLocalImport_JString)
  next
    assume "\<exists>s. v = JString s \<and> s \<noteq> [] \<and> ((\<exists>t. s = ''./'' @ t) \<or> (\<exists>t. s = ''../'' @ t))"
    then show "isLocalImport v = Inr True"
      by (auto simp: isLocalImport_JString)
  qed
  have examples:
    "isLocalImport (JString ''./a'') = Inr True"
    "isLocalImport (JString ''../a/b'') = Inr True"
    "isLocalImport (JString ''fs'') = Inr False"
    "isLocalImport (JString ''pdf-lib'') = Inr False"
    "isLocalImport (JString ''node:crypto'') = Inr False"
    "isLocalImport (JString '''') = Inr False"
    "isLocalImport JUndefined = Inr False"
    by (simp_all add: isLocalImport_def startsWith_def)
  from general examples show ?thesis by blast
qed

text \<open>
  Claim C2. A function declaration whose identifier, when it has one, has a non-empty
  name (as every parsed identifier has) is visited by no-logic-in-ffi. When the type of
  its immediate parent is neither \<^verbatim>\<open>ExportNamedDeclaration\<close> nor
  \<^verbatim>\<open>ExportDefaultDeclaration\<close>, exactly one diagnostic \<^verbatim>\<open>noHelperFunctions\<close> is reported,
  whose \<^verbatim>\<open>name\<close> is the function's name, or \<^verbatim>\<open>"anonymous"\<close> when the function has no
  identifier. When the parent is one of the two export declarations, nothing is reported.
\<close>

theorem helper_function_diagnostic:
  assumes "fname \<noteq> Some []"
  shows "visit no_logic_in_ffi_create
           (FunctionDeclaration (map_option Identifier fname) params body) (Some parent) =
         (if node_type parent \<noteq> ''ExportNamedDeclaration''
             \<and> node_type parent \<noteq> ''ExportDefaultDeclaration''
          then Inr [\<lparr>d_node = FunctionDeclaration (map_option Identifier fname) params body,
                     messageId = ''noHelperFunctions'',
                     d_data = [(''name'',
                        JString (case fname of None \<Rightarrow> ''anonymous'' | Some n \<Rightarrow> n))]\<rparr>]
          else Inr [])"
  using assms
  by (cases fname)
     (simp_all add: visit_no_logic_FunctionDeclaration no_logic_in_ffi_FunctionDeclaration_def
        js_or_def)

text \<open>
  C2 at concrete inputs: \<^verbatim>\<open>function helper(x) {}\<close> at the top level of the program, the
  same declaration under a named export, and a declaration without identifier.
\<close>

theorem helper_function_diagnostic_witness:
  "visit no_logic_in_ffi_create
     (FunctionDeclaration (Some (Identifier ''helper'')) [Identifier ''x''] (OtherNode ''BlockStatement'' []))
     (Some (OtherNode ''Program'' [])) =
   Inr [\<lparr>d_node = FunctionDeclaration (Some (Identifier ''helper'')) [Identifier ''x'']
                     (OtherNode ''BlockStatement'' []),
          messageId = ''noHelperFunctions'', d_data = [(''name'', JString ''helper'')]\<rparr>]
   \<and> visit no_logic_in_ffi_create
     (FunctionDeclaration (Some (Identifier ''helper'')) [Identifier ''x''] (OtherNode ''BlockStatement'' []))
     (Some (OtherNode ''ExportNamedDeclaration'' [])) = Inr []
   \<and> visit no_logic_in_ffi_create
     (FunctionDeclaration None [] (OtherNode ''BlockStatement'' []))
     (Some (OtherNode ''Program'' [])) =
   Inr [\<lparr>d_node = FunctionDeclaration None [] (OtherNode ''BlockStatement'' []),
          messageId = ''noHelperFunctions'', d_data = [(''name'', JString ''anonymous'')]\<rparr>]"
  using helper_function_diagnostic [of "Some ''helper''" "[Identifier ''x'']"
          "OtherNode ''BlockStatement'' []" "OtherNode ''Program'' []"]
        helper_function_diagnostic [of "Some ''helper''" "[Identifier ''x'']"
          "OtherNode ''BlockStatement'' []" "OtherNode ''ExportNamedDeclaration'' []"]
        helper_function_diagnostic [of None "[]"
          "OtherNode ''BlockStatement'' []" "OtherNode ''Program'' []"]
  by simp

text \<open>
  Claim C3. A call \<^verbatim>\<open>expr.name(...)\<close>, whose callee is a member access with the identifier
  \<^verbatim>\<open>name\<close> as its property, yields exactly one diagnostic \<^verbatim>\<open>noArrayMethods\<close> with
  \<^verbatim>\<open>method\<close> equal to \<^verbatim>\<open>name\<close> when \<^verbatim>\<open>name\<close> is one of map, filter, reduce, findIndex,
  find, some, every, flatMap, and no diagnostic for any other name.
\<close>

theorem array_method_call:
  "visit no_logic_in_ffi_create
     (CallExpression (MemberExpression obj (Identifier name) False) args) parent =
   (if name \<in> {''map'', ''filter'', ''reduce'', ''findIndex'', ''find'', ''some'', ''every'',
                ''flatMap''}
    then Inr [\<lparr>d_node = CallExpression (MemberExpression obj (Identifier name) False) args,
               messageId = ''noArrayMethods'', d_data = [(''method'', JString name)]\<rparr>]
    else Inr [])"
  by (simp add: visit_no_logic_CallExpression no_logic_in_ffi_CallExpression_def
        array_includes_def ARRAY_METHODS_def)


text \<open>
  Claim C4. An if statement, a loop of each of the five forms, a conditional expression
  and a switch statement each yield exactly one diagnostic of their message key
  (\<^verbatim>\<open>noIfStatements\<close>, \<^verbatim>\<open>noLoops\<close>, \<^verbatim>\<open>noTernary\<close>, \<^verbatim>\<open>noSwitch\<close>), whatever their
  children and whatever their parent.
\<close>

theorem logic_constructs_always_reported:
  "visit no_logic_in_ffi_create (OtherNode ''IfStatement'' cs) parent =
     Inr [\<lparr>d_node = OtherNode ''IfStatement'' cs, messageId = ''noIfStatements'', d_data = []\<rparr>]
   \<and> visit no_logic_in_ffi_create (OtherNode ''ForStatement'' cs) parent =
     Inr [\<lparr>d_node = OtherNode ''ForStatement'' cs, messageId = ''noLoops'', d_data = []\<rparr>]
   \<and> visit no_logic_in_ffi_create (OtherNode ''ForInStatement'' cs) parent =
     Inr [\<lparr>d_node = OtherNode ''ForInStatement'' cs, messageId = ''noLoops'', d_data = []\<rparr>]
   \<and> visit no_logic_in_ffi_create (OtherNode ''ForOfStatement'' cs) parent =
     Inr [\<lparr>d_node = OtherNode ''ForOfStatement'' cs, messageId = ''noLoops'', d_data = []\<rparr>]
   \<and> visit no_logic_in_ffi_create (OtherNode ''WhileStatement'' cs) parent =
     Inr [\<lparr>d_node = OtherNode ''WhileStatement'' cs, messageId = ''noLoops'', d_data = []\<rparr>]
   \<and> visit no_logic_in_ffi_create (OtherNode ''DoWhileStatement'' cs) parent =
     Inr [\<lparr>d_node = OtherNode ''DoWhileStatement'' cs, messageId = ''noLoops'', d_data = []\<rparr>]
   \<and> visit no_logic_in_ffi_create (OtherNode ''ConditionalExpression'' cs) parent =
     Inr [\<lparr>d_node = OtherNode ''ConditionalExpression'' cs, messageId = ''noTernary'',
            d_data = []\<rparr>]
   \<and> visit no_logic_in_ffi_create (OtherNode ''SwitchStatement'' cs) parent =
     Inr [\<lparr>d_node = OtherNode ''SwitchStatement'' cs, messageId = ''noSwitch'', d_data = []\<rparr>]"
  by (simp add: visit_def no_logic_in_ffi_create_def no_logic_in_ffi_IfStatement_def
        no_logic_in_ffi_ForStatement_def no_logic_in_ffi_ForInStatement_def
        no_logic_in_ffi_ForOfStatement_def no_logic_in_ffi_WhileStatement_def
        no_logic_in_ffi_DoWhileStatement_def no_logic_in_ffi_ConditionalExpression_def
        no_logic_in_ffi_SwitchStatement_def)

text \<open>
  Claim C5. For a specifier that starts with \<^verbatim>\<open>./\<close> or \<^verbatim>\<open>../\<close>: a static import of
  it yields \<^verbatim>\<open>noLocalImport\<close>, a call of \<^verbatim>\<open>require\<close> with it as a literal first argument
  yields \<^verbatim>\<open>noLocalRequire\<close>, and a dynamic import of it as a literal yields
  \<^verbatim>\<open>noLocalDynamicImport\<close>; each diagnostic carries the specifier as \<^verbatim>\<open>source\<close>.
\<close>

theorem local_import_message_keys:
  assumes "s = ''./'' @ t \<or> s = ''../'' @ t"
  shows "visit no_local_imports_create (ImportDeclaration specs (Literal (JString s))) parent =
           Inr [\<lparr>d_node = ImportDeclaration specs (Literal (JString s)),
                  messageId = ''noLocalImport'', d_data = [(''source'', JString s)]\<rparr>]
         \<and> visit no_local_imports_create
             (CallExpression (Identifier ''require'') (Literal (JString s) # rest)) parent =
           Inr [\<lparr>d_node = CallExpression (Identifier ''require'') (Literal (JString s) # rest),
                  messageId = ''noLocalRequire'', d_data = [(''source'', JString s)]\<rparr>]
         \<and> visit no_local_imports_create (ImportExpression (Literal (JString s))) parent =
           Inr [\<lparr>d_node = ImportExpression (Literal (JString s)),
                  messageId = ''noLocalDynamicImport'', d_data = [(''source'', JString s)]\<rparr>]"
proof -
  from assms have "isLocalImport (JString s) = Inr True"
    by (auto simp: isLocalImport_JString)
  then show ?thesis
    by (simp add: visit_no_local_ImportDeclaration visit_no_local_CallExpression
          visit_no_local_ImportExpression no_local_imports_ImportDeclaration_def
          no_local_imports_CallExpression_def no_local_imports_ImportExpression_def Let_def)
qed

text \<open>
  C5 at the specifier \<^verbatim>\<open>"../../js/utils.js"\<close>.
\<close>

theorem local_import_message_keys_witness:
  "visit no_local_imports_create
     (ImportDeclaration [] (Literal (JString ''../../js/utils.js''))) None =
     Inr [\<lparr>d_node = ImportDeclaration [] (Literal (JString ''../../js/utils.js'')),
            messageId = ''noLocalImport'',
            d_data = [(''source'', JString ''../../js/utils.js'')]\<rparr>]
   \<and> visit no_local_imports_create
       (CallExpression (Identifier ''require'') [Literal (JString ''../../js/utils.js'')]) None =
     Inr [\<lparr>d_node = CallExpression (Identifier ''require'')
                       [Literal (JString ''../../js/utils.js'')],
            messageId = ''noLocalRequire'',
            d_data = [(''source'', JString ''../../js/utils.js'')]\<rparr>]
   \<and> visit no_local_imports_create
       (ImportExpression (Literal (JString ''../../js/utils.js''))) None =
     Inr [\<lparr>d_node = ImportExpression (Literal (JString ''../../js/utils.js'')),
            messageId = ''noLocalDynamicImport'',
            d_data = [(''source'', JString ''../../js/utils.js'')]\<rparr>]"
  using local_import_message_keys [of "''../../js/utils.js''" "''../js/utils.js''" "[]" None "[]"]
  by simp

text \<open>
  Claim C6 says that the import classifier never throws, also on a call of \<^verbatim>\<open>require\<close>
  whose first argument is a literal that is not a string. On \<^verbatim>\<open>require(42)\<close> the callback
  throws: the literal's value 42 is truthy, so \<^verbatim>\<open>isLocalImport\<close> calls
  \<^verbatim>\<open>source.startsWith\<close>, which a number does not have.
\<close>

theorem require_non_string_literal_throws:
  "visit no_local_imports_create
     (CallExpression (Identifier ''require'') [Literal (JNumber (Finite 42))])
     (Some (OtherNode ''ExpressionStatement''
        [CallExpression (Identifier ''require'') [Literal (JNumber (Finite 42))]])) =
   Inl TypeError"
  by (simp add: visit_no_local_CallExpression no_local_imports_CallExpression_def
        isLocalImport_def)

text \<open>
  Claim C7 says that every callback is total and yields a report or no report on every
  node of its kind. On the dynamic import \<^verbatim>\<open>import(true)\<close> the callback of
  no-local-imports yields neither: it throws, for the reason given at C6.
\<close>

theorem dynamic_import_non_string_literal_throws:
  "visit no_local_imports_create (ImportExpression (Literal (JBoolean True)))
     (Some (OtherNode ''ExpressionStatement'' [ImportExpression (Literal (JBoolean True))])) =
   Inl TypeError"
  by (simp add: visit_no_local_ImportExpression no_local_imports_ImportExpression_def
        isLocalImport_def)


text \<open>
  Claim C8. The message catalog of no-logic-in-ffi declares the key \<^verbatim>\<open>noComplexCatch\<close>,
  no callback is registered under it, and no diagnostic that either rule reports on a
  visited node has that message key.
\<close>

theorem noComplexCatch_never_reported:
  assumes "visit no_logic_in_ffi_create node parent = Inr ds
           \<or> visit no_local_imports_create node parent = Inr ds"
    and "d \<in> set ds"
  shows "''noComplexCatch'' \<in> set (map fst no_logic_in_ffi_messages)
         \<and> ''noComplexCatch'' \<notin> set (map fst no_logic_in_ffi_create)
         \<and> messageId d \<noteq> ''noComplexCatch''"
proof -
  have declared: "''noComplexCatch'' \<in> set (map fst no_logic_in_ffi_messages)"
    by (simp add: no_logic_in_ffi_messages_def)
  have unheard: "''noComplexCatch'' \<notin> set (map fst no_logic_in_ffi_create)"
    by (simp add: no_logic_in_ffi_create_def)
  from assms have "messageId d \<in> {''noHelperFunctions'', ''noIfStatements'', ''noLoops'',
      ''noTernary'', ''noSwitch'', ''noArrayMethods'', ''noLocalImport'', ''noLocalRequire'',
      ''noLocalDynamicImport''}"
    using no_logic_in_ffi_messageIds [of node parent ds d]
      no_local_imports_messageIds [of node parent ds d] by blast
  then have "messageId d \<noteq> ''noComplexCatch''"
    by auto
  with declared unheard show ?thesis by blast
qed

text \<open>
  C8 at a switch statement, which reports \<^verbatim>\<open>noSwitch\<close>.
\<close>

theorem noComplexCatch_never_reported_witness:
  "''noComplexCatch'' \<in> set (map fst no_logic_in_ffi_messages)
   \<and> ''noComplexCatch'' \<notin> set (map fst no_logic_in_ffi_create)
   \<and> visit no_logic_in_ffi_create (OtherNode ''SwitchStatement'' []) None =
       Inr [\<lparr>d_node = OtherNode ''SwitchStatement'' [], messageId = ''noSwitch'', d_data = []\<rparr>]
   \<and> messageId \<lparr>d_node = OtherNode ''SwitchStatement'' [], messageId = ''noSwitch'',
                  d_data = []\<rparr> \<noteq> ''noComplexCatch''"
proof -
  have v: "visit no_logic_in_ffi_create (OtherNode ''SwitchStatement'' []) None =
       Inr [\<lparr>d_node = OtherNode ''SwitchStatement'' [], messageId = ''noSwitch'', d_data = []\<rparr>]"
    by (simp add: visit_def no_logic_in_ffi_create_def no_logic_in_ffi_SwitchStatement_def)
  have m: "\<lparr>d_node = OtherNode ''SwitchStatement'' [], messageId = ''noSwitch'', d_data = []\<rparr>
           \<in> set [\<lparr>d_node = OtherNode ''SwitchStatement'' [], messageId = ''noSwitch'',
                    d_data = []\<rparr>]"
    by simp
  from noComplexCatch_never_reported [OF disjI1 [OF v] m] v show ?thesis by blast
qed

text \<open>
  Claim C9 says that only a non-computed property access is ever reported. The callback
  does not read the \<^verbatim>\<open>computed\<close> flag: the computed access \<^verbatim>\<open>x[map](f)\<close>, whose key is the
  identifier \<^verbatim>\<open>map\<close>, is reported.
\<close>

theorem computed_identifier_key_reported:
  "visit no_logic_in_ffi_create
     (CallExpression (MemberExpression (Identifier ''x'') (Identifier ''map'') True)
        [Identifier ''f''])
     (Some (OtherNode ''ExpressionStatement'' [])) =
   Inr [\<lparr>d_node = CallExpression (MemberExpression (Identifier ''x'') (Identifier ''map'') True)
                     [Identifier ''f''],
          messageId = ''noArrayMethods'', d_data = [(''method'', JString ''map'')]\<rparr>]"
  by (simp add: visit_no_logic_CallExpression no_logic_in_ffi_CallExpression_def
        array_includes_def ARRAY_METHODS_def)

text \<open>
  Claim C9, amended. A call whose callee is a member access with a property node that
  is not an identifier, such as the string key of \<^verbatim>\<open>x["map"](...)\<close>, yields no diagnostic,
  also when the key's string is one of the array method names. A member access whose
  property node is an identifier is reported when the name is one of the array method
  names, whether the access is computed or not.
\<close>

theorem non_identifier_property_not_reported:
  assumes "node_type prop \<noteq> ''Identifier''"
  shows "visit no_logic_in_ffi_create
           (CallExpression (MemberExpression obj prop computed) args) parent = Inr []
         \<and> visit no_logic_in_ffi_create
             (CallExpression (MemberExpression obj (Identifier name) computed) args) parent =
           (if name \<in> {''map'', ''filter'', ''reduce'', ''findIndex'', ''find'', ''some'',
                        ''every'', ''flatMap''}
            then Inr [\<lparr>d_node = CallExpression (MemberExpression obj (Identifier name) computed)
                                  args,
                       messageId = ''noArrayMethods'', d_data = [(''method'', JString name)]\<rparr>]
            else Inr [])"
  using assms
  by (simp add: visit_no_logic_CallExpression no_logic_in_ffi_CallExpression_def
        array_includes_def ARRAY_METHODS_def)

text \<open>
  C9 amended, at \<^verbatim>\<open>x["map"](f)\<close>.
\<close>

theorem non_identifier_property_not_reported_witness:
  "visit no_logic_in_ffi_create
     (CallExpression (MemberExpression (Identifier ''x'') (Literal (JString ''map'')) True)
        [Identifier ''f'']) None = Inr []"
  using non_identifier_property_not_reported [of "Literal (JString ''map'')" "Identifier ''x''"
          True "[Identifier ''f'']" None "''map''"]
  by simp

text \<open>
  Claim C10. The specifiers \<^verbatim>\<open>"."\<close> and \<^verbatim>\<open>".."\<close> are not local, and a static import, a
  call of \<^verbatim>\<open>require\<close> and a dynamic import of either yields no diagnostic.
\<close>

theorem bare_dot_specifiers_pass:
  "isLocalImport (JString ''.'') = Inr False
   \<and> isLocalImport (JString ''..'') = Inr False
   \<and> visit no_local_imports_create (ImportDeclaration specs (Literal (JString ''.''))) parent
       = Inr []
   \<and> visit no_local_imports_create (ImportDeclaration specs (Literal (JString ''..''))) parent
       = Inr []
   \<and> visit no_local_imports_create
       (CallExpression (Identifier ''require'') (Literal (JString ''.'') # rest)) parent = Inr []
   \<and> visit no_local_imports_create
       (CallExpression (Identifier ''require'') (Literal (JString ''..'') # rest)) parent = Inr []
   \<and> visit no_local_imports_create (ImportExpression (Literal (JString ''.''))) parent = Inr []
   \<and> visit no_local_imports_create (ImportExpression (Literal (JString ''..''))) parent = Inr []"
proof -
  have dots: "isLocalImport (JString ''.'') = Inr False" "isLocalImport (JString ''..'') = Inr False"
    by (simp_all add: isLocalImport_def startsWith_def)
  then show ?thesis
    by (simp add: visit_no_local_ImportDeclaration visit_no_local_CallExpression
          visit_no_local_ImportExpression no_local_imports_ImportDeclaration_def
          no_local_imports_CallExpression_def no_local_imports_ImportExpression_def Let_def)
qed

end
